theory Spec2Isabelle
  imports Main "HOL-Library.Word"
begin

section \<open>Values of the monitoring engine\<close>

text \<open>
  The monitor (\<^verbatim>\<open>internal/monitor/monitor.go\<close>) works on arbitrary-precision
  integers (\<^verbatim>\<open>*big.Int\<close>), modelled as \<^typ>\<open>int\<close>; a pointer that may be
  \<^verbatim>\<open>nil\<close> is an \<^typ>\<open>int option\<close>. Go strings are byte sequences, as
  \<^typ>\<open>string\<close> is. A \<^verbatim>\<open>time.Duration\<close> is a signed count of nanoseconds;
  the code only compares it with zero, so it is an \<^typ>\<open>int\<close>.
\<close>

subsection \<open>Decimal rendering of a big integer\<close>

text \<open>\<^verbatim>\<open>(*big.Int).String()\<close>: base 10, a leading minus sign for negatives.\<close>

fun digits :: "nat \<Rightarrow> string" where
  "digits n =
     (if n < 10 then [char_of (48 + n)]
      else digits (n div 10) @ [char_of (48 + n mod 10)])"

declare digits.simps [simp del]

definition big_String :: "int \<Rightarrow> string" where
  "big_String i = (if i < 0 then CHR ''-'' # digits (nat (- i)) else digits (nat i))"

subsection \<open>The watcher\<close>

text \<open>
  \<^verbatim>\<open>type assetWatcher struct\<close>. The chain address (\<^verbatim>\<open>common.Address\<close> of
  go-ethereum) is carried as a value of a type parameter.
\<close>

record 'addr assetWatcher =
  name :: string
  address :: 'addr
  targetTotalSupply :: "int option"
  notifyOnIncrease :: bool
  notifyOnDecrease :: bool
  pollInterval :: int
  decimalsLoaded :: bool
  decimals :: "8 word"
  lastTotalSupply :: "int option"

section \<open>The trigger evaluator\<close>

text \<open>
  \<^verbatim>\<open>increasedByMoreThanOnePercent\<close>: false for a missing, zero or negative old
  supply; otherwise the comparison \<^verbatim>\<open>new * 100 > old * 110\<close>.
\<close>

definition increasedByMoreThanOnePercent :: "int option \<Rightarrow> int \<Rightarrow> bool" where
  "increasedByMoreThanOnePercent oldSupply newSupply =
     (case oldSupply of
        None \<Rightarrow> False
      | Some old \<Rightarrow>
          if old \<le> 0 then False
          else (let scaledNew = newSupply * 100; threshold = old * 110
                in scaledNew > threshold))"

text \<open>The three reason strings that \<^verbatim>\<open>evaluateTriggers\<close> formats.\<close>

definition increase_reason :: "int \<Rightarrow> int \<Rightarrow> string" where
  "increase_reason prev newSupply =
     ''total supply increased more than 1%: '' @ big_String prev @ '' -> '' @ big_String newSupply"

definition decrease_reason :: "int \<Rightarrow> int \<Rightarrow> string" where
  "decrease_reason prev newSupply =
     ''total supply decreased from '' @ big_String prev @ '' to '' @ big_String newSupply"

definition target_reason :: "int \<Rightarrow> string" where
  "target_reason target = ''total supply reached target '' @ big_String target"

text \<open>
  \<^verbatim>\<open>evaluateTriggers\<close>: the switch on \<^verbatim>\<open>newSupply.Cmp(a.lastTotalSupply)\<close>
  (1, -1, and nothing for 0), then the target test; reasons are appended in that order.
\<close>

definition evaluateTriggers :: "'addr assetWatcher \<Rightarrow> int \<Rightarrow> string list" where
  "evaluateTriggers a newSupply =
     (let reasons0 = [];
          reasons1 =
            (case lastTotalSupply a of
               None \<Rightarrow> reasons0
             | Some prev \<Rightarrow>
                 if newSupply > prev then
                   (if notifyOnIncrease a
                        \<and> increasedByMoreThanOnePercent (lastTotalSupply a) newSupply
                    then reasons0 @ [increase_reason prev newSupply] else reasons0)
                 else if newSupply < prev then
                   (if notifyOnDecrease a
                    then reasons0 @ [decrease_reason prev newSupply] else reasons0)
                 else reasons0);
          reasons2 =
            (case targetTotalSupply a of
               None \<Rightarrow> reasons1
             | Some target \<Rightarrow>
                 (case lastTotalSupply a of
                    None \<Rightarrow> reasons1
                  | Some prev \<Rightarrow>
                      if prev < target \<and> newSupply \<ge> target
                      then reasons1 @ [target_reason target] else reasons1))
      in reasons2)"

section \<open>Construction of the service\<close>

subsection \<open>Errors\<close>

text \<open>
  Every \<^verbatim>\<open>fmt.Errorf\<close> of the monitor is a constructor, with the values it
  formats. \<open>Remote\<close> stands for an error handed back by a collaborator outside the
  monitor: the chain client, a notifier, \<^verbatim>\<open>time.ParseDuration\<close>.
\<close>

datatype error =
    Remote string
  | DefaultPollNotPositive
  | AddressMissing string
  | AddressNotHex string
  | InvalidInteger string
  | TargetThreshold string error
  | ParsePollInterval string error
  | PollNotPositive string
  | FetchDecimals error
  | FetchTotalSupply error

subsection \<open>Configuration\<close>

text \<open>
  \<^verbatim>\<open>config.AssetConfig\<close> and the parts of \<^verbatim>\<open>config.Config\<close> the monitor
  reads. A \<^verbatim>\<open>*bool\<close> is a \<^typ>\<open>bool option\<close>.
\<close>

record AssetConfig =
  Name :: string
  Address :: string
  TargetCapTokens :: string
  NotifyOnIncrease :: "bool option"
  NotifyOnDecrease :: "bool option"
  PollInterval :: string

record Config =
  RPCURL :: string
  Assets :: "AssetConfig list"

subsection \<open>Library functions the constructor calls\<close>

text \<open>
  \<^verbatim>\<open>(*big.Int).SetString(v, 10)\<close> of Go's \<^verbatim>\<open>math/big\<close>: an optional sign
  \<^verbatim>\<open>+\<close> or \<^verbatim>\<open>-\<close>, then at least one decimal digit, and nothing else; in
  base 10 neither a prefix nor an underscore is accepted.
\<close>

definition isDigit :: "char \<Rightarrow> bool" where
  "isDigit c = (48 \<le> (of_char c :: nat) \<and> (of_char c :: nat) \<le> 57)"

definition scanDigits :: "string \<Rightarrow> nat option" where
  "scanDigits s =
     (if s = [] \<or> \<not> list_all isDigit s then None
      else Some (foldl (\<lambda>acc c. acc * 10 + (of_char c - 48)) 0 s))"

definition SetString10 :: "string \<Rightarrow> int option" where
  "SetString10 s =
     (case s of
        [] \<Rightarrow> None
      | c # rest \<Rightarrow>
          if c = CHR ''-'' then map_option (\<lambda>n. - int n) (scanDigits rest)
          else if c = CHR ''+'' then map_option int (scanDigits rest)
          else map_option int (scanDigits s))"

text \<open>
  \<^verbatim>\<open>common.IsHexAddress\<close> of go-ethereum: after an optional \<^verbatim>\<open>0x\<close> or
  \<^verbatim>\<open>0X\<close>, exactly 40 hexadecimal characters.
\<close>

definition has0xPrefix :: "string \<Rightarrow> bool" where
  "has0xPrefix s =
     (length s \<ge> 2 \<and> s ! 0 = CHR ''0'' \<and> (s ! 1 = CHR ''x'' \<or> s ! 1 = CHR ''X''))"

definition isHexCharacter :: "char \<Rightarrow> bool" where
  "isHexCharacter c =
     (let b = (of_char c :: nat)
      in (48 \<le> b \<and> b \<le> 57) \<or> (97 \<le> b \<and> b \<le> 102) \<or> (65 \<le> b \<and> b \<le> 70))"

definition isHex :: "string \<Rightarrow> bool" where
  "isHex s = (if length s mod 2 \<noteq> 0 then False else list_all isHexCharacter s)"

definition IsHexAddress :: "string \<Rightarrow> bool" where
  "IsHexAddress s =
     (let s' = (if has0xPrefix s then drop 2 s else s)
      in length s' = 2 * 20 \<and> isHex s')"

subsection \<open>NewService\<close>

definition parseBigInt :: "string \<Rightarrow> error + int option" where
  "parseBigInt v =
     (if v = [] then Inr None
      else case SetString10 v of
             None \<Rightarrow> Inl (InvalidInteger v)
           | Some val \<Rightarrow> Inr (Some val))"

definition valueOrDefault :: "bool option \<Rightarrow> bool \<Rightarrow> bool" where
  "valueOrDefault v fallback = (case v of None \<Rightarrow> fallback | Some b \<Rightarrow> b)"

text \<open>
  The body of the loop over \<^verbatim>\<open>cfg.Assets\<close> in \<^verbatim>\<open>NewService\<close>, for one
  asset: the watcher to append, or the error the constructor returns.
  \<^verbatim>\<open>common.HexToAddress\<close> and \<^verbatim>\<open>time.ParseDuration\<close> are parameters
  (\<open>hexToAddress\<close>, \<open>parseDuration\<close>); a fresh watcher has no decimals and no
  recorded supply (Go's zero values).
\<close>

definition newWatcher ::
  "(string \<Rightarrow> 'addr) \<Rightarrow> (string \<Rightarrow> error + int) \<Rightarrow> int \<Rightarrow> AssetConfig
     \<Rightarrow> error + 'addr assetWatcher" where
  "newWatcher hexToAddress parseDuration defaultPoll assetCfg =
     (let nm = (if Name assetCfg = [] then Address assetCfg else Name assetCfg)
      in if Address assetCfg = [] then Inl (AddressMissing nm)
         else if \<not> IsHexAddress (Address assetCfg) then Inl (AddressNotHex nm)
         else
           (let addr = hexToAddress (Address assetCfg)
            in case parseBigInt (TargetCapTokens assetCfg) of
                 Inl e \<Rightarrow> Inl (TargetThreshold nm e)
               | Inr target \<Rightarrow>
                   (let watcher =
                          \<lparr> name = nm,
                            address = addr,
                            targetTotalSupply = target,
                            notifyOnIncrease = valueOrDefault (NotifyOnIncrease assetCfg) True,
                            notifyOnDecrease = valueOrDefault (NotifyOnDecrease assetCfg) False,
                            pollInterval = defaultPoll,
                            decimalsLoaded = False,
                            decimals = 0,
                            lastTotalSupply = None \<rparr>
                    in if PollInterval assetCfg \<noteq> [] then
                         (case parseDuration (PollInterval assetCfg) of
                            Inl e \<Rightarrow> Inl (ParsePollInterval (Name assetCfg) e)
                          | Inr customPoll \<Rightarrow>
                              if customPoll \<le> 0 then Inl (PollNotPositive (Name assetCfg))
                              else Inr (watcher\<lparr>pollInterval := customPoll\<rparr>))
                       else Inr watcher)))"

text \<open>The loop: watchers are appended in order, the first error ends the construction.\<close>

fun newWatchers ::
  "(string \<Rightarrow> 'addr) \<Rightarrow> (string \<Rightarrow> error + int) \<Rightarrow> int \<Rightarrow> AssetConfig list
     \<Rightarrow> 'addr assetWatcher list \<Rightarrow> error + 'addr assetWatcher list" where
  "newWatchers hexToAddress parseDuration defaultPoll [] watchers = Inr watchers"
| "newWatchers hexToAddress parseDuration defaultPoll (assetCfg # rest) watchers =
     (case newWatcher hexToAddress parseDuration defaultPoll assetCfg of
        Inl e \<Rightarrow> Inl e
      | Inr watcher \<Rightarrow>
          newWatchers hexToAddress parseDuration defaultPoll rest (watchers @ [watcher]))"

text \<open>
  \<^verbatim>\<open>type Service struct\<close>; the chain client and the notifiers are held as
  they are given.
\<close>

record ('addr, 'client, 'notifier) Service =
  client :: 'client
  assets :: "'addr assetWatcher list"
  notifiers :: "'notifier list"
  defaultPoll :: int

definition NewService ::
  "(string \<Rightarrow> 'addr) \<Rightarrow> (string \<Rightarrow> error + int) \<Rightarrow> 'client \<Rightarrow> Config
     \<Rightarrow> 'notifier list \<Rightarrow> int \<Rightarrow> error + ('addr, 'client, 'notifier) Service" where
  "NewService hexToAddress parseDuration cl cfg ns dp =
     (if dp \<le> 0 then Inl DefaultPollNotPositive
      else case newWatchers hexToAddress parseDuration dp (Assets cfg) [] of
             Inl e \<Rightarrow> Inl e
           | Inr watchers \<Rightarrow>
               Inr \<lparr> client = cl, assets = watchers, notifiers = ns, defaultPoll = dp \<rparr>)"

section \<open>One poll of a watcher\<close>

text \<open>\<^verbatim>\<open>notify.SupplyChangeEvent\<close>; \<open>ObservedAt\<close> is the reading of the clock.\<close>

record SupplyChangeEvent =
  AssetName :: string
  AssetAddress :: string
  OldTotalSupply :: "int option"
  NewTotalSupply :: "int option"
  TargetTotalSupply :: "int option"
  Decimals :: "8 word"
  TriggerReasons :: "string list"
  ObservedAt :: nat

text \<open>
  What a poll does to the outside, in order: the lines it logs, the calls to the chain
  client, and the calls to the notifiers (by position in the configured list).
\<close>

datatype logline =
    LogNotYetRecorded string
  | LogLastTotalSupply string string
  | LogInitialTotalSupply string string
  | LogNoTriggers string string
  | LogChangeDetected string string string
  | LogNotifierError string error
  | LogInitialCheckFailed string error
  | LogCheckFailed string error

datatype 'addr action =
    Log logline
  | CallDecimals 'addr
  | CallTotalSupply 'addr
  | CallNotify nat SupplyChangeEvent

text \<open>
  What the outside answers during one poll: the reply of \<^verbatim>\<open>client.Decimals\<close> and
  of \<^verbatim>\<open>client.TotalSupply\<close> if they are called, and \<^verbatim>\<open>time.Now()\<close>. A
  notifier is its reply to an event: \<open>None\<close> for \<^verbatim>\<open>nil\<close>, or an error.
\<close>

record remote =
  decimalsReply :: "error + 8 word"
  totalSupplyReply :: "error + int"
  clock :: nat

type_synonym notifier = "SupplyChangeEvent \<Rightarrow> error option"

text \<open>
  The result of a poll: the watcher after it, the error \<^verbatim>\<open>check\<close> returns, the
  actions in order, and the event the poll built, if it built one.
\<close>

record 'addr outcome =
  watcher :: "'addr assetWatcher"
  err :: "error option"
  trace :: "'addr action list"
  event :: "SupplyChangeEvent option"

definition cloneBigInt :: "int option \<Rightarrow> int option" where
  "cloneBigInt v = (case v of None \<Rightarrow> None | Some x \<Rightarrow> Some x)"

text \<open>
  The loop over the notifiers in \<^verbatim>\<open>check\<close>: each is called with the event; an
  error is logged and the loop goes on.
\<close>

fun dispatch :: "string \<Rightarrow> notifier list \<Rightarrow> SupplyChangeEvent \<Rightarrow> nat \<Rightarrow> 'addr action list" where
  "dispatch nm [] ev i = []"
| "dispatch nm (n # ns) ev i =
     CallNotify i ev
       # (case n ev of None \<Rightarrow> [] | Some e \<Rightarrow> [Log (LogNotifierError nm e)])
       @ dispatch nm ns ev (Suc i)"

text \<open>
  \<^verbatim>\<open>check\<close> from the log of the last supply on (the decimals are known): \<open>t\<close> is
  the trace so far. \<^verbatim>\<open>a.address.Hex()\<close> is the parameter \<open>hex\<close>.
\<close>

definition check_supply ::
  "('addr \<Rightarrow> string) \<Rightarrow> notifier list \<Rightarrow> remote \<Rightarrow> 'addr action list
     \<Rightarrow> 'addr assetWatcher \<Rightarrow> 'addr outcome" where
  "check_supply hex ns r t a =
     (let t1 = t @ [Log (case lastTotalSupply a of
                           None \<Rightarrow> LogNotYetRecorded (name a)
                         | Some l \<Rightarrow> LogLastTotalSupply (name a) (big_String l)),
                    CallTotalSupply (address a)]
      in case totalSupplyReply r of
           Inl e \<Rightarrow>
             \<lparr> watcher = a, err = Some (FetchTotalSupply e), trace = t1, event = None \<rparr>
         | Inr totalSupply \<Rightarrow>
             (case lastTotalSupply a of
                None \<Rightarrow>
                  \<lparr> watcher = a\<lparr>lastTotalSupply := Some totalSupply\<rparr>,
                    err = None,
                    trace = t1 @ [Log (LogInitialTotalSupply (name a) (big_String totalSupply))],
                    event = None \<rparr>
              | Some l \<Rightarrow>
                  if totalSupply = l then
                    \<lparr> watcher = a, err = None, trace = t1, event = None \<rparr>
                  else
                    (let reasons = evaluateTriggers a totalSupply
                     in if length reasons = 0 then
                          \<lparr> watcher = a\<lparr>lastTotalSupply := Some totalSupply\<rparr>,
                            err = None,
                            trace = t1 @ [Log (LogNoTriggers (name a) (big_String totalSupply))],
                            event = None \<rparr>
                        else
                          (let ev =
                                 \<lparr> AssetName = name a,
                                   AssetAddress = hex (address a),
                                   OldTotalSupply = Some l,
                                   NewTotalSupply = Some totalSupply,
                                   TargetTotalSupply = cloneBigInt (targetTotalSupply a),
                                   Decimals = decimals a,
                                   TriggerReasons = reasons,
                                   ObservedAt = clock r \<rparr>
                           in \<lparr> watcher = a\<lparr>lastTotalSupply := Some totalSupply\<rparr>,
                                err = None,
                                trace = t1
                                  @ [Log (LogChangeDetected (name a) (big_String l)
                                            (big_String totalSupply))]
                                  @ dispatch (name a) ns ev 0,
                                event = Some ev \<rparr>))))"

text \<open>\<^verbatim>\<open>check\<close>: the decimals are fetched unless they are loaded; a failure returns.\<close>

definition check ::
  "('addr \<Rightarrow> string) \<Rightarrow> notifier list \<Rightarrow> remote \<Rightarrow> 'addr assetWatcher \<Rightarrow> 'addr outcome" where
  "check hex ns r a =
     (if \<not> decimalsLoaded a then
        (case decimalsReply r of
           Inl e \<Rightarrow>
             \<lparr> watcher = a, err = Some (FetchDecimals e),
               trace = [CallDecimals (address a)], event = None \<rparr>
         | Inr d \<Rightarrow>
             check_supply hex ns r [CallDecimals (address a)]
               (a\<lparr>decimals := d, decimalsLoaded := True\<rparr>))
      else check_supply hex ns r [] a)"

section \<open>The polling loop\<close>

text \<open>
  \<^verbatim>\<open>run\<close> polls once at start and then at every tick until the context is
  cancelled, logging the error of a poll that fails. The list of \<^typ>\<open>remote\<close> gives
  the answers of the outside at the polls made before cancellation; the result is the
  outcome of each poll, the watcher of one poll being handed to the next.
\<close>

definition logFailure :: "bool \<Rightarrow> 'addr outcome \<Rightarrow> 'addr outcome" where
  "logFailure initial out =
     (case err out of
        None \<Rightarrow> out
      | Some e \<Rightarrow>
          out\<lparr>trace := trace out
                 @ [Log (if initial then LogInitialCheckFailed (name (watcher out)) e
                         else LogCheckFailed (name (watcher out)) e)]\<rparr>)"

fun polls ::
  "('addr \<Rightarrow> string) \<Rightarrow> notifier list \<Rightarrow> bool \<Rightarrow> remote list \<Rightarrow> 'addr assetWatcher
     \<Rightarrow> 'addr outcome list" where
  "polls hex ns initial [] a = []"
| "polls hex ns initial (r # rs) a =
     (let out = logFailure initial (check hex ns r a)
      in out # polls hex ns False rs (watcher out))"

definition run ::
  "('addr \<Rightarrow> string) \<Rightarrow> notifier list \<Rightarrow> remote list \<Rightarrow> 'addr assetWatcher
     \<Rightarrow> 'addr outcome list" where
  "run hex ns rs a = polls hex ns True rs a"

text \<open>The position-independent reading of a trace: which calls were made.\<close>

fun is_decimals_call :: "'addr action \<Rightarrow> bool" where
  "is_decimals_call (CallDecimals _) = True"
| "is_decimals_call _ = False"

fun is_supply_call :: "'addr action \<Rightarrow> bool" where
  "is_supply_call (CallTotalSupply _) = True"
| "is_supply_call _ = False"

fun is_notify_call :: "'addr action \<Rightarrow> bool" where
  "is_notify_call (CallNotify _ _) = True"
| "is_notify_call _ = False"

section \<open>Facts about the reason strings\<close>

lemma increase_neq_target [simp]: "increase_reason p c \<noteq> target_reason t"
  by (simp add: increase_reason_def target_reason_def)

lemma decrease_neq_target [simp]: "decrease_reason p c \<noteq> target_reason t"
  by (simp add: decrease_reason_def target_reason_def)

lemma increase_neq_decrease [simp]: "increase_reason p c \<noteq> decrease_reason q d"
  by (simp add: increase_reason_def decrease_reason_def)

lemmas reason_neq_sym [simp] =
  increase_neq_target [symmetric] decrease_neq_target [symmetric]
  increase_neq_decrease [symmetric]

section \<open>The evaluator in closed form\<close>

lemma evaluateTriggers_Some:
  "lastTotalSupply a = Some p \<Longrightarrow>
   evaluateTriggers a c =
     (if c > p then
        (if notifyOnIncrease a \<and> 0 < p \<and> c * 100 > p * 110 then [increase_reason p c] else [])
      else if c < p then (if notifyOnDecrease a then [decrease_reason p c] else [])
      else [])
     @ (case targetTotalSupply a of
          None \<Rightarrow> []
        | Some t \<Rightarrow> if p < t \<and> t \<le> c then [target_reason t] else [])"
  by (auto simp: evaluateTriggers_def increasedByMoreThanOnePercent_def Let_def
           split: option.splits)

lemma evaluateTriggers_None: "lastTotalSupply a = None \<Longrightarrow> evaluateTriggers a c = []"
  by (simp add: evaluateTriggers_def split: option.splits)

lemma evaluateTriggers_decimals [simp]:
  "evaluateTriggers (a\<lparr>decimals := d, decimalsLoaded := b\<rparr>) c = evaluateTriggers a c"
  by (simp add: evaluateTriggers_def Let_def cong: option.case_cong if_cong)

lemma evaluateTriggers_eq:
  "evaluateTriggers a c =
     (case lastTotalSupply a of
        None \<Rightarrow> []
      | Some p \<Rightarrow>
          (if c > p then
             (if notifyOnIncrease a \<and> 0 < p \<and> c * 100 > p * 110
              then [increase_reason p c] else [])
           else if c < p then (if notifyOnDecrease a then [decrease_reason p c] else [])
           else [])
          @ (case targetTotalSupply a of
               None \<Rightarrow> []
             | Some t \<Rightarrow> if p < t \<and> t \<le> c then [target_reason t] else []))"
  by (cases "lastTotalSupply a") (simp_all add: evaluateTriggers_None evaluateTriggers_Some)

section \<open>Properties of the trigger evaluator\<close>

text \<open>
  C1 (as the code has it). With a recorded previous supply \<open>p\<close> and a current supply
  \<open>c > p\<close>, the evaluator produces the increase reason if and only if
  \<open>notifyOnIncrease\<close> is true, the previous supply is positive, and
  \<open>c * 100 > p * 110\<close>. The guard on the sign of the old supply in
  \<^verbatim>\<open>increasedByMoreThanOnePercent\<close> is the middle condition.
\<close>

theorem increase_trigger_iff:
  assumes "lastTotalSupply a = Some p" and "p < c"
  shows "increase_reason p c \<in> set (evaluateTriggers a c)
           \<longleftrightarrow> notifyOnIncrease a \<and> 0 < p \<and> c * 100 > p * 110"
  using assms by (auto simp: evaluateTriggers_Some split: option.splits)

theorem increase_trigger_witness:
  "(1000000::int) < 1120000
   \<and> increase_reason 1000000 1120000
       \<in> set (evaluateTriggers
               \<lparr> name = ''USDe'', address = (), targetTotalSupply = None,
                 notifyOnIncrease = True, notifyOnDecrease = False,
                 pollInterval = 60000000000, decimalsLoaded = True, decimals = 18,
                 lastTotalSupply = Some 1000000 \<rparr> 1120000)"
  using increase_trigger_iff
          [of "\<lparr> name = ''USDe'', address = (), targetTotalSupply = None,
                 notifyOnIncrease = True, notifyOnDecrease = False,
                 pollInterval = 60000000000, decimalsLoaded = True, decimals = 18,
                 lastTotalSupply = Some 1000000 \<rparr>" 1000000 1120000]
  by simp

text \<open>
  Without the condition on the sign the equivalence fails: from a recorded supply of 0
  to a supply of 5, with \<open>notifyOnIncrease\<close> true and \<open>5 * 100 > 0 * 110\<close>, the
  evaluator returns no increase reason.
\<close>

theorem increase_trigger_counterexample:
  "lastTotalSupply \<lparr> name = ''USDe'', address = (), targetTotalSupply = None,
       notifyOnIncrease = True, notifyOnDecrease = False, pollInterval = 60000000000,
       decimalsLoaded = True, decimals = 18, lastTotalSupply = Some 0 \<rparr> = Some 0
   \<and> (0::int) < 5
   \<and> \<not> (increase_reason 0 5
          \<in> set (evaluateTriggers
                  \<lparr> name = ''USDe'', address = (), targetTotalSupply = None,
                    notifyOnIncrease = True, notifyOnDecrease = False,
                    pollInterval = 60000000000, decimalsLoaded = True, decimals = 18,
                    lastTotalSupply = Some 0 \<rparr> 5)
        \<longleftrightarrow> True \<and> (5::int) * 100 > 0 * 110)"
  by (simp add: evaluateTriggers_eq)

text \<open>
  C9. With a recorded previous supply \<open>p\<close> and a current supply \<open>c < p\<close>, the
  evaluator produces the decrease reason if and only if \<open>notifyOnDecrease\<close> is true:
  there is no threshold on the size of the decrease.
\<close>

theorem decrease_trigger_iff:
  assumes "lastTotalSupply a = Some p" and "c < p"
  shows "decrease_reason p c \<in> set (evaluateTriggers a c) \<longleftrightarrow> notifyOnDecrease a"
  using assms by (auto simp: evaluateTriggers_Some split: option.splits)

theorem decrease_trigger_witness:
  "(400::int) < 500
   \<and> decrease_reason 500 400
       \<in> set (evaluateTriggers
               \<lparr> name = ''USDe'', address = (), targetTotalSupply = None,
                 notifyOnIncrease = True, notifyOnDecrease = True,
                 pollInterval = 60000000000, decimalsLoaded = True, decimals = 18,
                 lastTotalSupply = Some 500 \<rparr> 400)"
  using decrease_trigger_iff
          [of "\<lparr> name = ''USDe'', address = (), targetTotalSupply = None,
                 notifyOnIncrease = True, notifyOnDecrease = True,
                 pollInterval = 60000000000, decimalsLoaded = True, decimals = 18,
                 lastTotalSupply = Some 500 \<rparr>" 500 400]
  by simp

text \<open>
  C10. Whenever the evaluator returns both a directional reason (increase or decrease)
  and the target-crossing reason, the returned list is exactly the directional reason
  followed by the target-crossing reason.
\<close>

theorem directional_before_target:
  assumes "d \<in> set (evaluateTriggers a c)" and "r \<in> set (evaluateTriggers a c)"
    and "d = increase_reason p c' \<or> d = decrease_reason p c'"
    and "r = target_reason t"
  shows "evaluateTriggers a c = [d, r]"
proof (cases "lastTotalSupply a")
  case None
  with assms(1) show ?thesis by (simp add: evaluateTriggers_None)
next
  case (Some q)
  with assms show ?thesis
    by (auto simp: evaluateTriggers_Some split: option.splits if_splits)
qed

theorem directional_before_target_witness:
  "evaluateTriggers
     \<lparr> name = ''USDe'', address = (), targetTotalSupply = Some 100,
       notifyOnIncrease = True, notifyOnDecrease = False,
       pollInterval = 60000000000, decimalsLoaded = True, decimals = 18,
       lastTotalSupply = Some 95 \<rparr> 105
   = [increase_reason 95 105, target_reason 100]"
proof -
  let ?w = "\<lparr> name = ''USDe'', address = (), targetTotalSupply = Some 100,
       notifyOnIncrease = True, notifyOnDecrease = False,
       pollInterval = 60000000000, decimalsLoaded = True, decimals = 18,
       lastTotalSupply = Some (95::int) \<rparr>"
  have h1: "increase_reason 95 105 \<in> set (evaluateTriggers ?w 105)"
    by (simp add: evaluateTriggers_eq)
  have h2: "target_reason 100 \<in> set (evaluateTriggers ?w 105)"
    by (simp add: evaluateTriggers_eq)
  have h3: "increase_reason 95 105 = increase_reason 95 105
          \<or> increase_reason 95 105 = decrease_reason 95 105" by simp
  show ?thesis by (rule directional_before_target [OF h1 h2 h3 refl])
qed

section \<open>Properties of one poll\<close>

lemma dispatch_calls:
  "filter is_notify_call (dispatch nm ns ev i :: 'addr action list)
     = map (\<lambda>j. CallNotify j ev) [i..<i + length ns]"
proof (induction ns arbitrary: i)
  case Nil
  show ?case by simp
next
  case (Cons n ns)
  have "filter is_notify_call (dispatch nm ns ev (Suc i) :: 'addr action list)
          = map (\<lambda>j. CallNotify j ev) [Suc i..<Suc i + length ns]"
    by (rule Cons.IH)
  moreover have "[i..<i + length (n # ns)] = i # [Suc i..<Suc i + length ns]"
    by (subst upt_rec) simp
  ultimately show ?case
    by (simp split: option.splits)
qed

lemma dispatch_no_chain_calls:
  "filter is_decimals_call (dispatch nm ns ev i :: 'addr action list) = []"
  "filter is_supply_call (dispatch nm ns ev i :: 'addr action list) = []"
  by (induction ns arbitrary: i) (auto split: option.splits)

lemma check_ready:
  assumes "decimalsLoaded a \<or> decimalsReply r = Inr d"
  shows "check hex ns r a =
           check_supply hex ns r (if decimalsLoaded a then [] else [CallDecimals (address a)])
             (if decimalsLoaded a then a else a\<lparr>decimals := d, decimalsLoaded := True\<rparr>)"
  using assms by (auto simp: check_def)

lemma event_Some_dispatch:
  assumes "event (check hex ns r a) = Some ev"
  shows "\<exists>t. trace (check hex ns r a) = t @ dispatch (name a) ns ev 0
            \<and> filter is_notify_call t = []
            \<and> err (check hex ns r a) = None
            \<and> (\<forall>s. totalSupplyReply r = Inr s
                  \<longrightarrow> lastTotalSupply (watcher (check hex ns r a)) = Some s)"
  using assms
  by (auto simp: check_def check_supply_def Let_def split: if_splits sum.splits option.splits)

lemma check_success:
  assumes "decimalsLoaded a \<or> decimalsReply r = Inr d" and "totalSupplyReply r = Inr s"
  shows "lastTotalSupply (watcher (check hex ns r a)) = Some s"
    and "targetTotalSupply (watcher (check hex ns r a)) = targetTotalSupply a"
    and "notifyOnIncrease (watcher (check hex ns r a)) = notifyOnIncrease a"
    and "notifyOnDecrease (watcher (check hex ns r a)) = notifyOnDecrease a"
    and "decimalsLoaded (watcher (check hex ns r a))"
    and "err (check hex ns r a) = None"
  using assms
  by (auto simp: check_ready [OF assms(1)] check_supply_def Let_def split: option.splits)

lemma check_event:
  assumes "decimalsLoaded a \<or> decimalsReply r = Inr d" and "totalSupplyReply r = Inr s"
    and "lastTotalSupply a = Some p"
  shows "event (check hex ns r a) =
           (if s = p \<or> evaluateTriggers a s = [] then None
            else Some \<lparr> AssetName = name a, AssetAddress = hex (address a),
                        OldTotalSupply = Some p, NewTotalSupply = Some s,
                        TargetTotalSupply = targetTotalSupply a,
                        Decimals = (if decimalsLoaded a then decimals a else d),
                        TriggerReasons = evaluateTriggers a s, ObservedAt = clock r \<rparr>)"
  using assms
  by (auto simp: check_ready [OF assms(1)] check_supply_def Let_def cloneBigInt_def
           split: option.splits)

lemma logFailure_fields [simp]:
  "watcher (logFailure i out) = watcher out"
  "err (logFailure i out) = err out"
  "event (logFailure i out) = event out"
  by (simp_all add: logFailure_def split: option.splits)

lemma check_event_None:
  "lastTotalSupply a = None \<Longrightarrow> event (check hex ns r a) = None"
  by (auto simp: check_def check_supply_def Let_def split: sum.splits)

lemma four_polls:
  fixes b :: "'addr assetWatcher"
  assumes "lastTotalSupply b = None" and "targetTotalSupply b = Some 100"
    and "map totalSupplyReply rs = [Inr 90, Inr 95, Inr 105, Inr 110]"
    and "\<forall>r \<in> set rs. decimalsReply r = Inr d"
  shows "\<exists>ev. map event (run hex ns rs b) = [None, None, Some ev, None]
            \<and> OldTotalSupply ev = Some 95 \<and> NewTotalSupply ev = Some 105
            \<and> target_reason 100 \<in> set (TriggerReasons ev)"
proof -
  from assms(3) obtain r1 r2 r3 r4 where rs: "rs = [r1, r2, r3, r4]"
    and s: "totalSupplyReply r1 = Inr 90" "totalSupplyReply r2 = Inr 95"
           "totalSupplyReply r3 = Inr 105" "totalSupplyReply r4 = Inr 110"
    by (auto simp: map_eq_Cons_conv)
  from assms(4) rs have dr: "decimalsReply r1 = Inr d" "decimalsReply r2 = Inr d"
    "decimalsReply r3 = Inr d" "decimalsReply r4 = Inr d" by simp_all
  define o1 where "o1 = check hex ns r1 b"
  define o2 where "o2 = check hex ns r2 (watcher o1)"
  define o3 where "o3 = check hex ns r3 (watcher o2)"
  define o4 where "o4 = check hex ns r4 (watcher o3)"
  have d1: "decimalsLoaded b \<or> decimalsReply r1 = Inr d" using dr by simp
  have e1: "event o1 = None"
    unfolding o1_def by (rule check_event_None [OF assms(1)])
  have w1: "lastTotalSupply (watcher o1) = Some 90" "targetTotalSupply (watcher o1) = Some 100"
    "decimalsLoaded (watcher o1)"
    unfolding o1_def using check_success [OF d1 s(1)] assms(2) by simp_all
  have d2: "decimalsLoaded (watcher o1) \<or> decimalsReply r2 = Inr d" using w1 by simp
  have t2: "evaluateTriggers (watcher o1) 95 = []"
    by (simp add: evaluateTriggers_eq w1)
  have e2: "event o2 = None"
    unfolding o2_def using check_event [OF d2 s(2) w1(1)] t2 by simp
  have w2: "lastTotalSupply (watcher o2) = Some 95" "targetTotalSupply (watcher o2) = Some 100"
    "decimalsLoaded (watcher o2)"
    unfolding o2_def using check_success [OF d2 s(2)] w1(2) by simp_all
  have d3: "decimalsLoaded (watcher o2) \<or> decimalsReply r3 = Inr d" using w2 by simp
  have t3: "evaluateTriggers (watcher o2) 105
              = (if notifyOnIncrease (watcher o2) then [increase_reason 95 105] else [])
                @ [target_reason 100]"
    by (simp add: evaluateTriggers_eq w2)
  obtain ev where e3: "event o3 = Some ev" and ev: "OldTotalSupply ev = Some 95"
    "NewTotalSupply ev = Some 105" "TriggerReasons ev = evaluateTriggers (watcher o2) 105"
    unfolding o3_def using check_event [OF d3 s(3) w2(1), of hex ns] t3 by simp
  have w3: "lastTotalSupply (watcher o3) = Some 105" "targetTotalSupply (watcher o3) = Some 100"
    "decimalsLoaded (watcher o3)"
    unfolding o3_def using check_success [OF d3 s(3)] w2(2) by simp_all
  have d4: "decimalsLoaded (watcher o3) \<or> decimalsReply r4 = Inr d" using w3 by simp
  have t4: "evaluateTriggers (watcher o3) 110 = []"
    by (simp add: evaluateTriggers_eq w3)
  have e4: "event o4 = None"
    unfolding o4_def using check_event [OF d4 s(4) w3(1)] t4 by simp
  have "map event (run hex ns rs b) = [event o1, event o2, event o3, event o4]"
    by (simp add: run_def rs Let_def o1_def o2_def o3_def o4_def)
  with e1 e2 e3 e4 ev t3 show ?thesis by simp
qed

lemma check_loaded:
  assumes "decimalsLoaded a"
  shows "filter is_decimals_call (trace (check hex ns r a)) = []"
    and "decimalsLoaded (watcher (check hex ns r a))"
    and "decimals (watcher (check hex ns r a)) = decimals a"
  using assms
  by (auto simp: check_def check_supply_def Let_def dispatch_no_chain_calls
           split: sum.splits option.splits)

lemma logFailure_trace:
  "filter is_decimals_call (trace (logFailure i out)) = filter is_decimals_call (trace out)"
  by (simp add: logFailure_def split: option.splits)

lemma polls_loaded:
  assumes "decimalsLoaded a"
  shows "\<forall>out \<in> set (polls hex ns i rs a).
           filter is_decimals_call (trace out) = []
         \<and> decimalsLoaded (watcher out) \<and> decimals (watcher out) = decimals a"
  using assms
proof (induction rs arbitrary: a i)
  case Nil
  show ?case by simp
next
  case (Cons r rs)
  let ?o = "check hex ns r a"
  note c = check_loaded [OF Cons.prems, of hex ns r]
  have "decimalsLoaded (watcher (logFailure i ?o))" using c(2) by simp
  from Cons.IH [OF this, of False]
  have "\<forall>out \<in> set (polls hex ns False rs (watcher (logFailure i ?o))).
           filter is_decimals_call (trace out) = []
         \<and> decimalsLoaded (watcher out) \<and> decimals (watcher out) = decimals a"
    using c(3) by simp
  then show ?case using c by (simp add: Let_def logFailure_trace)
qed

text \<open>
  C3. A poll of a watcher with no recorded supply, whose supply fetch succeeds (the
  decimals being loaded or fetched in this poll), records the fetched supply and returns
  no error. It builds no event, and its actions are the decimals call (if needed), the
  log line, the supply call and the log of the initial supply: no notifier is called.
\<close>

theorem first_poll_baseline_only:
  assumes "lastTotalSupply a = None" and "totalSupplyReply r = Inr s"
    and "decimalsLoaded a \<or> decimalsReply r = Inr d"
  shows "lastTotalSupply (watcher (check hex ns r a)) = Some s
       \<and> err (check hex ns r a) = None
       \<and> event (check hex ns r a) = None
       \<and> trace (check hex ns r a) =
           (if decimalsLoaded a then [] else [CallDecimals (address a)])
           @ [Log (LogNotYetRecorded (name a)), CallTotalSupply (address a),
              Log (LogInitialTotalSupply (name a) (big_String s))]"
  using assms by (auto simp: check_ready [OF assms(3)] check_supply_def)

theorem first_poll_baseline_only_witness:
  "lastTotalSupply
     (watcher (check (\<lambda>u. ''0x4579a27aF00A62C0EB156349f31B345c08386419'')
        [\<lambda>ev. None]
        \<lparr> decimalsReply = Inr 18, totalSupplyReply = Inr 90, clock = 1 \<rparr>
        \<lparr> name = ''USDe'', address = (), targetTotalSupply = Some 100,
          notifyOnIncrease = True, notifyOnDecrease = False,
          pollInterval = 60000000000, decimalsLoaded = False, decimals = 0,
          lastTotalSupply = None \<rparr>)) = Some 90
   \<and> trace (check (\<lambda>u. ''0x4579a27aF00A62C0EB156349f31B345c08386419'')
        [\<lambda>ev. None]
        \<lparr> decimalsReply = Inr 18, totalSupplyReply = Inr 90, clock = 1 \<rparr>
        \<lparr> name = ''USDe'', address = (), targetTotalSupply = Some 100,
          notifyOnIncrease = True, notifyOnDecrease = False,
          pollInterval = 60000000000, decimalsLoaded = False, decimals = 0,
          lastTotalSupply = None \<rparr>)
     = [CallDecimals (), Log (LogNotYetRecorded ''USDe''), CallTotalSupply (),
        Log (LogInitialTotalSupply ''USDe'' (big_String 90))]"
  using first_poll_baseline_only
          [of "\<lparr> name = ''USDe'', address = (), targetTotalSupply = Some 100,
                 notifyOnIncrease = True, notifyOnDecrease = False,
                 pollInterval = 60000000000, decimalsLoaded = False, decimals = 0,
                 lastTotalSupply = None \<rparr>"
              "\<lparr> decimalsReply = Inr 18, totalSupplyReply = Inr 90, clock = 1 \<rparr>"
              90 18 "\<lambda>u. ''0x4579a27aF00A62C0EB156349f31B345c08386419''" "[\<lambda>ev. None]"]
  by simp

text \<open>
  C5. A poll whose fetched supply equals the recorded one leaves \<open>lastTotalSupply\<close>
  as it was, returns no error, builds no event, and does nothing after the supply call:
  the evaluator is not reached and no notifier is called.
\<close>

theorem equal_supply_noop:
  assumes "lastTotalSupply a = Some p" and "totalSupplyReply r = Inr p"
    and "decimalsLoaded a \<or> decimalsReply r = Inr d"
  shows "lastTotalSupply (watcher (check hex ns r a)) = lastTotalSupply a
       \<and> err (check hex ns r a) = None
       \<and> event (check hex ns r a) = None
       \<and> trace (check hex ns r a) =
           (if decimalsLoaded a then [] else [CallDecimals (address a)])
           @ [Log (LogLastTotalSupply (name a) (big_String p)), CallTotalSupply (address a)]"
  using assms by (auto simp: check_ready [OF assms(3)] check_supply_def)

theorem equal_supply_noop_witness:
  "lastTotalSupply
     (watcher (check (\<lambda>u. ''0x4579a27aF00A62C0EB156349f31B345c08386419'')
        [\<lambda>ev. None]
        \<lparr> decimalsReply = Inr 18, totalSupplyReply = Inr 90, clock = 2 \<rparr>
        \<lparr> name = ''USDe'', address = (), targetTotalSupply = Some 100,
          notifyOnIncrease = True, notifyOnDecrease = True,
          pollInterval = 60000000000, decimalsLoaded = True, decimals = 18,
          lastTotalSupply = Some 90 \<rparr>)) = Some 90
   \<and> event (check (\<lambda>u. ''0x4579a27aF00A62C0EB156349f31B345c08386419'')
        [\<lambda>ev. None]
        \<lparr> decimalsReply = Inr 18, totalSupplyReply = Inr 90, clock = 2 \<rparr>
        \<lparr> name = ''USDe'', address = (), targetTotalSupply = Some 100,
          notifyOnIncrease = True, notifyOnDecrease = True,
          pollInterval = 60000000000, decimalsLoaded = True, decimals = 18,
          lastTotalSupply = Some 90 \<rparr>) = None
   \<and> trace (check (\<lambda>u. ''0x4579a27aF00A62C0EB156349f31B345c08386419'')
        [\<lambda>ev. None]
        \<lparr> decimalsReply = Inr 18, totalSupplyReply = Inr 90, clock = 2 \<rparr>
        \<lparr> name = ''USDe'', address = (), targetTotalSupply = Some 100,
          notifyOnIncrease = True, notifyOnDecrease = True,
          pollInterval = 60000000000, decimalsLoaded = True, decimals = 18,
          lastTotalSupply = Some 90 \<rparr>)
     = [Log (LogLastTotalSupply ''USDe'' (big_String 90)), CallTotalSupply ()]"
  using equal_supply_noop
          [of "\<lparr> name = ''USDe'', address = (), targetTotalSupply = Some 100,
                 notifyOnIncrease = True, notifyOnDecrease = True,
                 pollInterval = 60000000000, decimalsLoaded = True, decimals = 18,
                 lastTotalSupply = Some 90 \<rparr>" 90
              "\<lparr> decimalsReply = Inr 18, totalSupplyReply = Inr 90, clock = 2 \<rparr>"
              18 "\<lambda>u. ''0x4579a27aF00A62C0EB156349f31B345c08386419''" "[\<lambda>ev. None]"]
  by simp

text \<open>
  C4. In a poll that built an event \<open>ev\<close> and in which some notifier answers with an
  error, the calls to the notifiers are still one call per configured notifier, in the
  configured order, each with \<open>ev\<close>; the poll returns no error, and the recorded
  supply is the one just fetched.
\<close>

theorem notifier_failure_isolated:
  assumes "event (check hex ns r a) = Some ev"
    and "\<exists>n \<in> set ns. n ev \<noteq> None"
    and "totalSupplyReply r = Inr s"
  shows "filter is_notify_call (trace (check hex ns r a))
           = map (\<lambda>i. CallNotify i ev) [0..<length ns]
       \<and> err (check hex ns r a) = None
       \<and> lastTotalSupply (watcher (check hex ns r a)) = Some s"
proof -
  from event_Some_dispatch [OF assms(1)] obtain t where
    t: "trace (check hex ns r a) = t @ dispatch (name a) ns ev 0"
       "filter is_notify_call t = []"
       "err (check hex ns r a) = None"
       "\<forall>s. totalSupplyReply r = Inr s \<longrightarrow> lastTotalSupply (watcher (check hex ns r a)) = Some s"
    by blast
  have "filter is_notify_call (trace (check hex ns r a))
          = map (\<lambda>i. CallNotify i ev) [0..<0 + length ns]"
    unfolding t(1) filter_append t(2) dispatch_calls by simp
  with t(3,4) assms(3) show ?thesis by simp
qed

theorem notifier_failure_isolated_witness:
  "filter is_notify_call
     (trace (check (\<lambda>u. ''0x4579a27aF00A62C0EB156349f31B345c08386419'')
        [\<lambda>ev. Some (Remote ''telegram: status 502''), \<lambda>ev. None]
        \<lparr> decimalsReply = Inr 18, totalSupplyReply = Inr 105, clock = 3 \<rparr>
        \<lparr> name = ''USDe'', address = (), targetTotalSupply = Some 100,
          notifyOnIncrease = True, notifyOnDecrease = False,
          pollInterval = 60000000000, decimalsLoaded = True, decimals = 18,
          lastTotalSupply = Some 95 \<rparr>))
   = [CallNotify 0
        \<lparr> AssetName = ''USDe'',
          AssetAddress = ''0x4579a27aF00A62C0EB156349f31B345c08386419'',
          OldTotalSupply = Some 95, NewTotalSupply = Some 105,
          TargetTotalSupply = Some 100, Decimals = 18,
          TriggerReasons = [increase_reason 95 105, target_reason 100],
          ObservedAt = 3 \<rparr>,
      CallNotify 1
        \<lparr> AssetName = ''USDe'',
          AssetAddress = ''0x4579a27aF00A62C0EB156349f31B345c08386419'',
          OldTotalSupply = Some 95, NewTotalSupply = Some 105,
          TargetTotalSupply = Some 100, Decimals = 18,
          TriggerReasons = [increase_reason 95 105, target_reason 100],
          ObservedAt = 3 \<rparr>]
   \<and> lastTotalSupply
       (watcher (check (\<lambda>u. ''0x4579a27aF00A62C0EB156349f31B345c08386419'')
          [\<lambda>ev. Some (Remote ''telegram: status 502''), \<lambda>ev. None]
          \<lparr> decimalsReply = Inr 18, totalSupplyReply = Inr 105, clock = 3 \<rparr>
          \<lparr> name = ''USDe'', address = (), targetTotalSupply = Some 100,
            notifyOnIncrease = True, notifyOnDecrease = False,
            pollInterval = 60000000000, decimalsLoaded = True, decimals = 18,
            lastTotalSupply = Some 95 \<rparr>)) = Some 105"
proof -
  let ?w = "\<lparr> name = ''USDe'', address = (), targetTotalSupply = Some 100,
            notifyOnIncrease = True, notifyOnDecrease = False,
            pollInterval = 60000000000, decimalsLoaded = True, decimals = 18,
            lastTotalSupply = Some 95 \<rparr>"
  let ?r = "\<lparr> decimalsReply = Inr 18, totalSupplyReply = Inr 105, clock = 3 \<rparr>"
  let ?ns = "[\<lambda>ev. Some (Remote ''telegram: status 502''), \<lambda>ev. None] :: notifier list"
  let ?hex = "\<lambda>u::unit. ''0x4579a27aF00A62C0EB156349f31B345c08386419''"
  let ?ev = "\<lparr> AssetName = ''USDe'',
          AssetAddress = ''0x4579a27aF00A62C0EB156349f31B345c08386419'',
          OldTotalSupply = Some 95, NewTotalSupply = Some 105,
          TargetTotalSupply = Some 100, Decimals = 18,
          TriggerReasons = [increase_reason 95 105, target_reason 100],
          ObservedAt = 3 \<rparr>"
  have h1: "event (check ?hex ?ns ?r ?w) = Some ?ev"
    by (simp add: check_def check_supply_def evaluateTriggers_eq cloneBigInt_def Let_def)
  have h2: "\<exists>n \<in> set ?ns. n ?ev \<noteq> None" by simp
  have h3: "totalSupplyReply ?r = Inr 105" by simp
  from notifier_failure_isolated [OF h1 h2 h3] show ?thesis
    by (simp add: upt_rec)
qed

text \<open>
  C6. For a watcher whose decimals are not loaded: if the decimals fetch fails, the poll
  returns the error with the watcher unchanged, and its only action is the decimals call
  (no supply call); if the decimals fetch succeeds, the watcher holds the fetched value
  as loaded, and in every later poll of the loop there is no decimals call and the value
  stays.
\<close>

theorem decimals_fetch_once:
  assumes "\<not> decimalsLoaded a"
  shows "(decimalsReply r = Inl e \<longrightarrow>
            check hex ns r a
              = \<lparr> watcher = a, err = Some (FetchDecimals e),
                  trace = [CallDecimals (address a)], event = None \<rparr>
          \<and> filter is_supply_call (trace (check hex ns r a)) = [])
       \<and> (decimalsReply r = Inr d \<longrightarrow>
            decimalsLoaded (watcher (check hex ns r a))
          \<and> decimals (watcher (check hex ns r a)) = d
          \<and> (\<forall>out \<in> set (polls hex ns False rs (watcher (check hex ns r a))).
                filter is_decimals_call (trace out) = []
              \<and> decimalsLoaded (watcher out) \<and> decimals (watcher out) = d))"
proof (intro conjI impI)
  assume "decimalsReply r = Inl e"
  with assms show f: "check hex ns r a
      = \<lparr> watcher = a, err = Some (FetchDecimals e),
          trace = [CallDecimals (address a)], event = None \<rparr>"
    by (simp add: check_def)
  show "filter is_supply_call (trace (check hex ns r a)) = []"
    unfolding f by simp
next
  assume r: "decimalsReply r = Inr d"
  from assms r show l: "decimalsLoaded (watcher (check hex ns r a))"
    by (auto simp: check_def check_supply_def Let_def split: sum.splits option.splits)
  from assms r show v: "decimals (watcher (check hex ns r a)) = d"
    by (auto simp: check_def check_supply_def Let_def split: sum.splits option.splits)
  from polls_loaded [OF l, of hex ns False rs] v
  show "\<forall>out \<in> set (polls hex ns False rs (watcher (check hex ns r a))).
                filter is_decimals_call (trace out) = []
              \<and> decimalsLoaded (watcher out) \<and> decimals (watcher out) = d"
    by simp
qed

theorem decimals_fetch_once_witness:
  "check (\<lambda>u. ''0x4579a27aF00A62C0EB156349f31B345c08386419'') [\<lambda>ev. None]
     \<lparr> decimalsReply = Inl (Remote ''call decimals: timeout''),
       totalSupplyReply = Inr 90, clock = 1 \<rparr>
     \<lparr> name = ''USDe'', address = (), targetTotalSupply = None,
       notifyOnIncrease = True, notifyOnDecrease = False,
       pollInterval = 60000000000, decimalsLoaded = False, decimals = 0,
       lastTotalSupply = None \<rparr>
   = \<lparr> watcher =
         \<lparr> name = ''USDe'', address = (), targetTotalSupply = None,
           notifyOnIncrease = True, notifyOnDecrease = False,
           pollInterval = 60000000000, decimalsLoaded = False, decimals = 0,
           lastTotalSupply = None \<rparr>,
       err = Some (FetchDecimals (Remote ''call decimals: timeout'')),
       trace = [CallDecimals ()], event = None \<rparr>
   \<and> decimals
       (watcher (check (\<lambda>u. ''0x4579a27aF00A62C0EB156349f31B345c08386419'') [\<lambda>ev. None]
          \<lparr> decimalsReply = Inr 18, totalSupplyReply = Inr 90, clock = 2 \<rparr>
          \<lparr> name = ''USDe'', address = (), targetTotalSupply = None,
            notifyOnIncrease = True, notifyOnDecrease = False,
            pollInterval = 60000000000, decimalsLoaded = False, decimals = 0,
            lastTotalSupply = None \<rparr>)) = 18
   \<and> list_all (\<lambda>out. filter is_decimals_call (trace out) = [] \<and> decimals (watcher out) = 18)
       (polls (\<lambda>u. ''0x4579a27aF00A62C0EB156349f31B345c08386419'')
          [\<lambda>ev. None] False
          [\<lparr> decimalsReply = Inr 6, totalSupplyReply = Inr 95, clock = 3 \<rparr>]
          (watcher (check (\<lambda>u. ''0x4579a27aF00A62C0EB156349f31B345c08386419'')
             [\<lambda>ev. None]
             \<lparr> decimalsReply = Inr 18, totalSupplyReply = Inr 90, clock = 2 \<rparr>
             \<lparr> name = ''USDe'', address = (), targetTotalSupply = None,
               notifyOnIncrease = True, notifyOnDecrease = False,
               pollInterval = 60000000000, decimalsLoaded = False, decimals = 0,
               lastTotalSupply = None \<rparr>)))"
proof -
  let ?w = "\<lparr> name = ''USDe'', address = (), targetTotalSupply = None,
            notifyOnIncrease = True, notifyOnDecrease = False,
            pollInterval = 60000000000, decimalsLoaded = False, decimals = 0,
            lastTotalSupply = None \<rparr>"
  let ?hex = "\<lambda>u::unit. ''0x4579a27aF00A62C0EB156349f31B345c08386419''"
  have h: "\<not> decimalsLoaded ?w" by simp
  from decimals_fetch_once [OF h,
      of "\<lparr> decimalsReply = Inl (Remote ''call decimals: timeout''),
             totalSupplyReply = Inr 90, clock = 1 \<rparr>"
         "Remote ''call decimals: timeout''" ?hex "[\<lambda>ev. None]" 18 "[]"]
  have a: "check ?hex [\<lambda>ev. None]
     \<lparr> decimalsReply = Inl (Remote ''call decimals: timeout''),
       totalSupplyReply = Inr 90, clock = 1 \<rparr> ?w
     = \<lparr> watcher = ?w, err = Some (FetchDecimals (Remote ''call decimals: timeout'')),
         trace = [CallDecimals ()], event = None \<rparr>"
    by simp
  from decimals_fetch_once [OF h,
      of "\<lparr> decimalsReply = Inr 18, totalSupplyReply = Inr 90, clock = 2 \<rparr>"
         "Remote []" ?hex "[\<lambda>ev. None]" 18
         "[\<lparr> decimalsReply = Inr 6, totalSupplyReply = Inr 95, clock = 3 \<rparr>]"]
  have b: "decimals (watcher (check ?hex [\<lambda>ev. None]
          \<lparr> decimalsReply = Inr 18, totalSupplyReply = Inr 90, clock = 2 \<rparr> ?w)) = 18
    \<and> (\<forall>out \<in> set (polls ?hex [\<lambda>ev. None] False
                      [\<lparr> decimalsReply = Inr 6, totalSupplyReply = Inr 95, clock = 3 \<rparr>]
                      (watcher (check ?hex [\<lambda>ev. None]
                         \<lparr> decimalsReply = Inr 18, totalSupplyReply = Inr 90, clock = 2 \<rparr> ?w))).
          filter is_decimals_call (trace out) = [] \<and> decimals (watcher out) = 18)"
    by simp
  from a b show ?thesis by (simp add: list_all_iff)
qed

section \<open>Properties of the polling loop\<close>

text \<open>
  C2. With a recorded previous supply \<open>p\<close> and a target \<open>t\<close>, the evaluator
  produces the target-crossing reason exactly when \<open>p < t \<le> c\<close>. Consequently a
  watcher with target 100 that starts with no recorded supply and observes 90, 95, 105,
  110 builds exactly one event, at the third poll (95 to 105), and that event carries the
  target-crossing reason; whatever the two notification flags are.
\<close>

theorem target_crossing_edge:
  fixes a :: "'a assetWatcher" and b :: "'addr assetWatcher"
  assumes "lastTotalSupply a = Some p" and "targetTotalSupply a = Some t"
    and "lastTotalSupply b = None" and "targetTotalSupply b = Some 100"
    and "map totalSupplyReply rs = [Inr 90, Inr 95, Inr 105, Inr 110]"
    and "\<forall>r \<in> set rs. decimalsReply r = Inr d"
  shows "(target_reason t \<in> set (evaluateTriggers a c) \<longleftrightarrow> p < t \<and> t \<le> c)
       \<and> (\<exists>ev. map event (run hex ns rs b) = [None, None, Some ev, None]
              \<and> OldTotalSupply ev = Some 95 \<and> NewTotalSupply ev = Some 105
              \<and> target_reason 100 \<in> set (TriggerReasons ev))"
proof
  from assms(1,2) show "target_reason t \<in> set (evaluateTriggers a c) \<longleftrightarrow> p < t \<and> t \<le> c"
    by (auto simp: evaluateTriggers_Some)
next
  from assms(3-6) show "\<exists>ev. map event (run hex ns rs b) = [None, None, Some ev, None]
              \<and> OldTotalSupply ev = Some 95 \<and> NewTotalSupply ev = Some 105
              \<and> target_reason 100 \<in> set (TriggerReasons ev)"
    by (rule four_polls)
qed

theorem target_crossing_edge_witness:
  "target_reason 100
     \<in> set (evaluateTriggers
             \<lparr> name = ''USDe'', address = (), targetTotalSupply = Some 100,
               notifyOnIncrease = False, notifyOnDecrease = False,
               pollInterval = 60000000000, decimalsLoaded = True, decimals = 18,
               lastTotalSupply = Some 95 \<rparr> 105)
   \<and> (\<exists>ev. map event
             (run (\<lambda>u. ''0x4579a27aF00A62C0EB156349f31B345c08386419'') [\<lambda>ev. None]
                [\<lparr> decimalsReply = Inr 18, totalSupplyReply = Inr 90, clock = 1 \<rparr>,
                 \<lparr> decimalsReply = Inr 18, totalSupplyReply = Inr 95, clock = 2 \<rparr>,
                 \<lparr> decimalsReply = Inr 18, totalSupplyReply = Inr 105, clock = 3 \<rparr>,
                 \<lparr> decimalsReply = Inr 18, totalSupplyReply = Inr 110, clock = 4 \<rparr>]
                \<lparr> name = ''USDe'', address = (), targetTotalSupply = Some 100,
                  notifyOnIncrease = True, notifyOnDecrease = False,
                  pollInterval = 60000000000, decimalsLoaded = False, decimals = 0,
                  lastTotalSupply = None \<rparr>)
           = [None, None, Some ev, None]
         \<and> OldTotalSupply ev = Some 95 \<and> NewTotalSupply ev = Some 105
         \<and> target_reason 100 \<in> set (TriggerReasons ev))"
  using target_crossing_edge
    [of "\<lparr> name = ''USDe'', address = (), targetTotalSupply = Some 100,
               notifyOnIncrease = False, notifyOnDecrease = False,
               pollInterval = 60000000000, decimalsLoaded = True, decimals = 18,
               lastTotalSupply = Some 95 \<rparr>" 95 100
        "\<lparr> name = ''USDe'', address = (), targetTotalSupply = Some 100,
                  notifyOnIncrease = True, notifyOnDecrease = False,
                  pollInterval = 60000000000, decimalsLoaded = False, decimals = 0,
                  lastTotalSupply = None \<rparr>"
        "[\<lparr> decimalsReply = Inr 18, totalSupplyReply = Inr 90, clock = 1 \<rparr>,
                 \<lparr> decimalsReply = Inr 18, totalSupplyReply = Inr 95, clock = 2 \<rparr>,
                 \<lparr> decimalsReply = Inr 18, totalSupplyReply = Inr 105, clock = 3 \<rparr>,
                 \<lparr> decimalsReply = Inr 18, totalSupplyReply = Inr 110, clock = 4 \<rparr>]"
        18 105 "\<lambda>u. ''0x4579a27aF00A62C0EB156349f31B345c08386419''" "[\<lambda>ev. None]"]
  by simp

section \<open>Properties of the construction\<close>

lemma newWatcher_rejects:
  assumes "Address c = [] \<or> \<not> IsHexAddress (Address c)
         \<or> (TargetCapTokens c \<noteq> [] \<and> SetString10 (TargetCapTokens c) = None)
         \<or> (PollInterval c \<noteq> []
             \<and> (case parseDuration (PollInterval c) of Inl e \<Rightarrow> True | Inr v \<Rightarrow> v \<le> 0))"
  shows "isl (newWatcher hexToAddress parseDuration dp c)"
  using assms
  by (auto simp: newWatcher_def parseBigInt_def Let_def split: sum.splits option.splits)

lemma newWatchers_rejects:
  assumes "c \<in> set cs" and "isl (newWatcher hexToAddress parseDuration dp c)"
  shows "isl (newWatchers hexToAddress parseDuration dp cs ws)"
  using assms
proof (induction cs arbitrary: ws)
  case Nil
  then show ?case by simp
next
  case (Cons x cs)
  show ?case
  proof (cases "newWatcher hexToAddress parseDuration dp x")
    case (Inl e)
    then show ?thesis by simp
  next
    case (Inr w)
    with Cons.prems have "c \<in> set cs" by auto
    from Cons.IH [OF this Cons.prems(2)] Inr show ?thesis by simp
  qed
qed

lemma newWatcher_target:
  assumes "newWatcher hexToAddress parseDuration dp c = Inr w"
  shows "targetTotalSupply w
           = (if TargetCapTokens c = [] then None else SetString10 (TargetCapTokens c))"
  using assms
  by (auto simp: newWatcher_def parseBigInt_def Let_def
           split: sum.splits option.splits if_splits)

lemma newWatchers_each:
  assumes "newWatchers hexToAddress parseDuration dp cs ws = Inr ws'"
  shows "\<exists>new. ws' = ws @ new
           \<and> list_all2 (\<lambda>w c. newWatcher hexToAddress parseDuration dp c = Inr w) new cs"
  using assms
proof (induction cs arbitrary: ws)
  case Nil
  then show ?case by simp
next
  case (Cons x cs)
  from Cons.prems obtain w where w: "newWatcher hexToAddress parseDuration dp x = Inr w"
    and rest: "newWatchers hexToAddress parseDuration dp cs (ws @ [w]) = Inr ws'"
    by (auto split: sum.splits)
  from Cons.IH [OF rest] obtain new where "ws' = (ws @ [w]) @ new"
    and "list_all2 (\<lambda>w c. newWatcher hexToAddress parseDuration dp c = Inr w) new cs"
    by blast
  with w have "ws' = ws @ (w # new)
      \<and> list_all2 (\<lambda>w c. newWatcher hexToAddress parseDuration dp c = Inr w) (w # new) (x # cs)"
    by simp
  then show ?case by blast
qed

lemma scanDigits_nonneg: "SetString10 s = Some t \<Longrightarrow> take 1 s \<noteq> ''-'' \<Longrightarrow> 0 \<le> t"
  by (auto simp: SetString10_def split: list.splits if_splits)

text \<open>
  C7. If some asset of the configuration has an empty address, an address that
  \<^verbatim>\<open>IsHexAddress\<close> refuses, a given (non-empty) poll interval that
  \<^verbatim>\<open>time.ParseDuration\<close> refuses or that is not positive, or a given (non-empty)
  target string that does not parse as a base-10 integer, then \<^verbatim>\<open>NewService\<close>
  returns an error: no service value, and so no watcher, is built.
\<close>

theorem NewService_rejects_invalid_asset:
  assumes "c \<in> set (Assets cfg)"
    and "Address c = [] \<or> \<not> IsHexAddress (Address c)
         \<or> (PollInterval c \<noteq> []
             \<and> (case parseDuration (PollInterval c) of Inl e \<Rightarrow> True | Inr v \<Rightarrow> v \<le> 0))
         \<or> (TargetCapTokens c \<noteq> [] \<and> SetString10 (TargetCapTokens c) = None)"
  shows "isl (NewService hexToAddress parseDuration cl cfg ns dp)"
proof -
  from assms(2) have "isl (newWatcher hexToAddress parseDuration dp c)"
    by (intro newWatcher_rejects) blast
  from newWatchers_rejects [OF assms(1) this, of "[]"] show ?thesis
    by (auto simp: NewService_def split: sum.splits)
qed

theorem NewService_rejects_invalid_asset_witness:
  "isl (NewService (\<lambda>s. s) (\<lambda>s. Inl (Remote ''time: invalid duration'')) ()
     \<lparr> RPCURL = ''http://localhost:8545'',
       Assets = [\<lparr> Name = ''USDe'',
                   Address = ''0x4579a27aF00A62C0EB156349f31B345c08386419'',
                   TargetCapTokens = ''1000'',
                   NotifyOnIncrease = None, NotifyOnDecrease = None,
                   PollInterval = [] \<rparr>,
                 \<lparr> Name = ''sUSDe'',
                   Address = ''0x4579a27aF00A62C0EB156349f31B345c08386419'',
                   TargetCapTokens = ''12e3'',
                   NotifyOnIncrease = None, NotifyOnDecrease = None,
                   PollInterval = [] \<rparr>] \<rparr>
     ([] :: unit list) 60000000000)"
proof -
  let ?c = "\<lparr> Name = ''sUSDe'',
                   Address = ''0x4579a27aF00A62C0EB156349f31B345c08386419'',
                   TargetCapTokens = ''12e3'',
                   NotifyOnIncrease = None, NotifyOnDecrease = None,
                   PollInterval = [] \<rparr>"
  let ?cfg = "\<lparr> RPCURL = ''http://localhost:8545'',
       Assets = [\<lparr> Name = ''USDe'',
                   Address = ''0x4579a27aF00A62C0EB156349f31B345c08386419'',
                   TargetCapTokens = ''1000'',
                   NotifyOnIncrease = None, NotifyOnDecrease = None,
                   PollInterval = [] \<rparr>, ?c] \<rparr>"
  have mem: "?c \<in> set (Assets ?cfg)" by simp
  have "SetString10 ''12e3'' = None"
    by (simp add: SetString10_def scanDigits_def isDigit_def)
  then have bad: "Address ?c = [] \<or> \<not> IsHexAddress (Address ?c)
         \<or> (PollInterval ?c \<noteq> []
             \<and> (case (\<lambda>s. Inl (Remote ''time: invalid duration'')) (PollInterval ?c) of
                  Inl e \<Rightarrow> True | Inr v \<Rightarrow> v \<le> (0::int)))
         \<or> (TargetCapTokens ?c \<noteq> [] \<and> SetString10 (TargetCapTokens ?c) = None)"
    by simp
  show ?thesis
    by (rule NewService_rejects_invalid_asset [OF mem bad])
qed

text \<open>
  C8 (as the code has it). In a service that \<^verbatim>\<open>NewService\<close> returns, the
  watchers correspond to the assets in order, and a watcher's target, when set, is the
  integer that \<^verbatim>\<open>SetString\<close> reads from the asset's target string; it is
  non-negative whenever that string does not begin with a minus sign. The sign of the
  target is not checked.
\<close>

theorem NewService_target_denotes:
  assumes "NewService hexToAddress parseDuration cl cfg ns dp = Inr svc"
  shows "list_all2
           (\<lambda>w c. \<forall>t. targetTotalSupply w = Some t
                     \<longrightarrow> SetString10 (TargetCapTokens c) = Some t
                       \<and> (take 1 (TargetCapTokens c) \<noteq> ''-'' \<longrightarrow> 0 \<le> t))
           (assets svc) (Assets cfg)"
proof -
  from assms obtain ws where ws: "newWatchers hexToAddress parseDuration dp (Assets cfg) [] = Inr ws"
    and svc: "assets svc = ws"
    by (auto simp: NewService_def split: if_splits sum.splits)
  from newWatchers_each [OF ws]
  have "list_all2 (\<lambda>w c. newWatcher hexToAddress parseDuration dp c = Inr w) ws (Assets cfg)"
    by simp
  then show ?thesis unfolding svc
  proof (rule list_all2_mono)
    fix w c assume "newWatcher hexToAddress parseDuration dp c = Inr w"
    from newWatcher_target [OF this]
    show "\<forall>t. targetTotalSupply w = Some t
                     \<longrightarrow> SetString10 (TargetCapTokens c) = Some t
                       \<and> (take 1 (TargetCapTokens c) \<noteq> ''-'' \<longrightarrow> 0 \<le> t)"
      by (auto split: if_splits dest: scanDigits_nonneg)
  qed
qed

theorem NewService_target_denotes_witness:
  "NewService id (Inl \<circ> Remote) ()
     \<lparr> RPCURL = ''http://localhost:8545'',
       Assets = [\<lparr> Name = ''USDe'',
                   Address = ''0x4579a27aF00A62C0EB156349f31B345c08386419'',
                   TargetCapTokens = ''1000'',
                   NotifyOnIncrease = None, NotifyOnDecrease = None,
                   PollInterval = [] \<rparr>] \<rparr>
     ([] :: unit list) 60000000000
   = Inr \<lparr> client = (),
           assets = [\<lparr> name = ''USDe'',
                       address = ''0x4579a27aF00A62C0EB156349f31B345c08386419'',
                       targetTotalSupply = Some 1000,
                       notifyOnIncrease = True, notifyOnDecrease = False,
                       pollInterval = 60000000000,
                       decimalsLoaded = False, decimals = 0,
                       lastTotalSupply = None \<rparr>],
           notifiers = [], defaultPoll = 60000000000 \<rparr>
   \<and> SetString10 ''1000'' = Some 1000"
proof -
  have h: "NewService id (Inl \<circ> Remote) ()
     \<lparr> RPCURL = ''http://localhost:8545'',
       Assets = [\<lparr> Name = ''USDe'',
                   Address = ''0x4579a27aF00A62C0EB156349f31B345c08386419'',
                   TargetCapTokens = ''1000'',
                   NotifyOnIncrease = None, NotifyOnDecrease = None,
                   PollInterval = [] \<rparr>] \<rparr>
     ([] :: unit list) 60000000000
   = Inr \<lparr> client = (),
           assets = [\<lparr> name = ''USDe'',
                       address = ''0x4579a27aF00A62C0EB156349f31B345c08386419'',
                       targetTotalSupply = Some 1000,
                       notifyOnIncrease = True, notifyOnDecrease = False,
                       pollInterval = 60000000000,
                       decimalsLoaded = False, decimals = 0,
                       lastTotalSupply = None \<rparr>],
           notifiers = [], defaultPoll = 60000000000 \<rparr>"
    by (simp add: NewService_def newWatcher_def parseBigInt_def SetString10_def scanDigits_def
        isDigit_def IsHexAddress_def has0xPrefix_def isHex_def isHexCharacter_def
        valueOrDefault_def Let_def)
  from h NewService_target_denotes [OF h] show ?thesis by simp
qed

text \<open>
  A target string with a minus sign is accepted: the configuration below, whose only
  asset has the target string \<open>-5\<close>, yields a service whose watcher has the target
  \<open>- 5\<close>.
\<close>

theorem NewService_negative_target_counterexample:
  "NewService id (Inl \<circ> Remote) ()
     \<lparr> RPCURL = ''http://localhost:8545'',
       Assets = [\<lparr> Name = ''USDe'',
                   Address = ''0x4579a27aF00A62C0EB156349f31B345c08386419'',
                   TargetCapTokens = ''-5'',
                   NotifyOnIncrease = None, NotifyOnDecrease = None,
                   PollInterval = [] \<rparr>] \<rparr>
     ([] :: unit list) 60000000000
   = Inr \<lparr> client = (),
           assets = [\<lparr> name = ''USDe'',
                       address = ''0x4579a27aF00A62C0EB156349f31B345c08386419'',
                       targetTotalSupply = Some (- 5),
                       notifyOnIncrease = True, notifyOnDecrease = False,
                       pollInterval = 60000000000,
                       decimalsLoaded = False, decimals = 0,
                       lastTotalSupply = None \<rparr>],
           notifiers = [], defaultPoll = 60000000000 \<rparr>"
  by (simp add: NewService_def newWatcher_def parseBigInt_def SetString10_def scanDigits_def
        isDigit_def IsHexAddress_def has0xPrefix_def isHex_def isHexCharacter_def
        valueOrDefault_def Let_def)

end
